theory Spec2Isabelle
  imports Main
begin

section \<open>Python values\<close>

text \<open>
  A Python \<open>str\<close> is a sequence of Unicode code points: \<open>len\<close> counts code points and
  a slice \<open>s[:n]\<close> keeps the first \<open>n\<close> of them. A string is modelled as the list of its
  code points, so \<open>length\<close> and \<open>take\<close> count what the source counts.
\<close>

type_synonym pystr = "nat list"

definition py :: "string \<Rightarrow> pystr" where
  "py s = map of_char s"

text \<open>
  \<open>str.isspace\<close> for one code point, as CPython decides it (the ASCII table below 128,
  the Unicode white-space property above); \<open>str.strip()\<close> with no argument removes the
  leading and the trailing run of such code points.
\<close>

definition isspace :: "nat \<Rightarrow> bool" where
  "isspace c = (c \<in> {9, 10, 11, 12, 13, 28, 29, 30, 31, 32, 133, 160, 5760,
                     8192, 8193, 8194, 8195, 8196, 8197, 8198, 8199, 8200, 8201, 8202,
                     8232, 8233, 8239, 8287, 12288})"

definition strip :: "pystr \<Rightarrow> pystr" where
  "strip s = rev (dropWhile isspace (rev (dropWhile isspace s)))"

text \<open>
  Truth value of an \<open>Optional[str]\<close>: \<open>None\<close> and the empty string are false.
  \<open>a or b\<close> is \<open>a\<close> when \<open>a\<close> is true and \<open>b\<close> otherwise.
\<close>

fun truthy :: "pystr option \<Rightarrow> bool" where
  "truthy None = False"
| "truthy (Some s) = (s \<noteq> [])"

definition or_else :: "pystr option \<Rightarrow> pystr option \<Rightarrow> pystr option" where
  "or_else a b = (if truthy a then a else b)"

text \<open>
  What \<open>response.json()\<close> can return: the Python value of a JSON document. A float is
  kept as mantissa and binary exponent (or infinity, or NaN, which Python's parser
  accepts); only its truth value is ever inspected.
\<close>

datatype pyfloat = Finite int int | Infinity bool | NaN

datatype pyval =
    PyNone
  | PyBool bool
  | PyInt int
  | PyFloat pyfloat
  | PyStr pystr
  | PyList "pyval list"
  | PyDict "(pystr \<times> pyval) list"

fun bool_of :: "pyval \<Rightarrow> bool" where
  "bool_of PyNone = False"
| "bool_of (PyBool b) = b"
| "bool_of (PyInt i) = (i \<noteq> 0)"
| "bool_of (PyFloat (Finite m e)) = (m \<noteq> 0)"
| "bool_of (PyFloat (Infinity s)) = True"
| "bool_of (PyFloat NaN) = True"
| "bool_of (PyStr s) = (s \<noteq> [])"
| "bool_of (PyList xs) = (xs \<noteq> [])"
| "bool_of (PyDict kvs) = (kvs \<noteq> [])"

text \<open>\<open>type(v).__name__\<close>, as it appears in the message of an \<open>AttributeError\<close>.\<close>

fun type_name :: "pyval \<Rightarrow> string" where
  "type_name PyNone = ''NoneType''"
| "type_name (PyBool b) = ''bool''"
| "type_name (PyInt i) = ''int''"
| "type_name (PyFloat f) = ''float''"
| "type_name (PyStr s) = ''str''"
| "type_name (PyList xs) = ''list''"
| "type_name (PyDict kvs) = ''dict''"

text \<open>\<open>d.get(k)\<close> on a dict: the value stored under \<open>k\<close>, or \<open>None\<close>.\<close>

definition dict_get :: "(pystr \<times> pyval) list \<Rightarrow> pystr \<Rightarrow> pyval" where
  "dict_get kvs k = (case map_of kvs k of None \<Rightarrow> PyNone | Some v \<Rightarrow> v)"

definition or_val :: "pyval \<Rightarrow> pyval \<Rightarrow> pyval" where
  "or_val a b = (if bool_of a then a else b)"

section \<open>Exceptions, requests and responses\<close>

text \<open>
  The exceptions the handlers raise: \<open>HTTPException(status_code, detail)\<close> of the web
  framework, the built-in \<open>RuntimeError(message)\<close>, and \<open>FlipFlopError(message)\<close>, the
  class that \<open>fastapi_app/main.py\<close> imports from \<open>flipflop_engine.core\<close>.
\<close>

datatype exn =
    HTTPException nat pystr
  | RuntimeError pystr
  | FlipFlopError pystr

record FlipFlopRequest =
  rq_noun1 :: pystr
  rq_noun2 :: pystr
  rq_enforce_length :: bool
  rq_request_image :: bool
  rq_image_style_tail :: "pystr option"

record FlipFlopResponse =
  rs_paragraph :: pystr
  rs_truncated :: bool
  rs_image_prompt :: "pystr option"
  rs_image_url :: pyval

section \<open>The outside world\<close>

text \<open>
  The client \<open>_build_llm_client\<close> constructs: \<open>AzureOpenAI(api_version, azure_endpoint,
  api_key)\<close> or \<open>OpenAI(api_key, base_url)\<close>. With the package imported, the
  constructors are taken to return.
\<close>

datatype llm_client =
    AzureOpenAI pystr pystr pystr
  | OpenAI pystr "pystr option"

fun client_api_key :: "llm_client \<Rightarrow> pystr" where
  "client_api_key (AzureOpenAI api_version azure_endpoint api_key) = api_key"
| "client_api_key (OpenAI api_key base_url) = api_key"

text \<open>
  \<open>client.chat.completions.create\<close> either raises (the text is \<open>str(exc)\<close>) or returns
  a completion; a completion is the list of its choices, each given by its
  \<open>message.content\<close>, an optional string.
\<close>

datatype create_outcome =
    CreateRaises pystr
  | Completion "pystr option list"

text \<open>
  \<open>httpx.post\<close> either raises or returns a response. On a response,
  \<open>raise_for_status()\<close> raises or passes, and \<open>json()\<close> raises or returns the parsed
  document.
\<close>

record httpx_response =
  raise_for_status :: "pystr option"
  json :: "pystr + pyval"

datatype post_outcome =
    PostRaises pystr
  | PostReturns httpx_response

text \<open>
  Everything a request reads from outside itself: the process environment
  (\<open>os.getenv\<close> is \<open>None\<close> on an unset name), whether the \<open>openai\<close> package could be
  imported (otherwise \<open>OpenAI\<close> and \<open>AzureOpenAI\<close> are both \<open>None\<close>), the module constant
  \<open>FLIPFLOP_SYSTEM_PROMPT\<close>, and the two remote services as functions of the call made
  to them.
\<close>

record world =
  getenv :: "pystr \<Rightarrow> pystr option"
  openai_installed :: bool
  FLIPFLOP_SYSTEM_PROMPT :: pystr
  chat_completions_create ::
    "llm_client \<Rightarrow> pystr \<Rightarrow> (pystr \<times> pystr) list \<Rightarrow> int \<Rightarrow> create_outcome"
  httpx_post :: "pystr \<Rightarrow> pystr \<Rightarrow> nat \<Rightarrow> post_outcome"

text \<open>
  The outbound calls a run makes, in order: each effectful function returns the calls
  it made beside its result.
\<close>

datatype event =
    ChatCompletionsCreate llm_client pystr "(pystr \<times> pystr) list" int
  | HttpxPost pystr pystr nat

fun is_post :: "event \<Rightarrow> bool" where
  "is_post (HttpxPost url prompt timeout) = True"
| "is_post (ChatCompletionsCreate client model messages temperature) = False"

section \<open>main.py\<close>

text \<open>\<open>_build_llm_client\<close>.\<close>

definition build_llm_client :: "world \<Rightarrow> exn + llm_client" where
  "build_llm_client w =
    (let api_key = or_else (getenv w (py ''AZURE_OPENAI_API_KEY''))
                     (or_else (getenv w (py ''OPENAI_API_KEY''))
                        (getenv w (py ''OPENAI_APIKEY'')))
     in case api_key of
          None \<Rightarrow> Inl (RuntimeError (py ''Missing OPENAI_API_KEY or AZURE_OPENAI_API_KEY.''))
        | Some key \<Rightarrow>
            if key = [] then
              Inl (RuntimeError (py ''Missing OPENAI_API_KEY or AZURE_OPENAI_API_KEY.''))
            else
              let azure_endpoint = getenv w (py ''AZURE_OPENAI_ENDPOINT'');
                  azure_version = getenv w (py ''AZURE_OPENAI_API_VERSION'');
                  api_base = or_else (getenv w (py ''OPENAI_BASE_URL''))
                               (getenv w (py ''OPENAI_API_BASE''))
              in if truthy azure_endpoint then
                   (if \<not> openai_installed w then
                      Inl (RuntimeError (py ''openai package not installed.''))
                    else
                      Inr (AzureOpenAI
                             (case azure_version of
                                None \<Rightarrow> py ''2024-05-01-preview''
                              | Some v \<Rightarrow> if v = [] then py ''2024-05-01-preview'' else v)
                             (case azure_endpoint of None \<Rightarrow> [] | Some e \<Rightarrow> e)
                             key))
                 else if \<not> openai_installed w then
                   Inl (RuntimeError (py ''openai package not installed.''))
                 else Inr (OpenAI key api_base))"

text \<open>\<open>_call_flipflop_llm\<close>. The client is built outside the \<open>try\<close>.\<close>

definition call_flipflop_llm :: "world \<Rightarrow> pystr \<Rightarrow> pystr \<Rightarrow> event list \<times> (exn + pystr)" where
  "call_flipflop_llm w noun1 noun2 =
    (case build_llm_client w of
       Inl e \<Rightarrow> ([], Inl e)
     | Inr client \<Rightarrow>
         let model =
               (case or_else (getenv w (py ''OPENAI_MODEL''))
                       (getenv w (py ''AZURE_OPENAI_DEPLOYMENT'')) of
                  None \<Rightarrow> py ''gpt-4o-mini''
                | Some m \<Rightarrow> if m = [] then py ''gpt-4o-mini'' else m);
             messages =
               [(py ''system'', FLIPFLOP_SYSTEM_PROMPT w),
                (py ''user'', py ''A: '' @ noun1 @ [10] @ py ''B: '' @ noun2)]
         in ([ChatCompletionsCreate client model messages 0],
             case chat_completions_create w client model messages 0 of
               CreateRaises exc \<Rightarrow>
                 Inl (HTTPException 502 (py ''LLM call failed: '' @ exc))
             | Completion choices \<Rightarrow>
                 (case choices of
                    [] \<Rightarrow> Inl (HTTPException 502 (py ''LLM returned no choices.''))
                  | choice # rest \<Rightarrow>
                      let content = (case choice of None \<Rightarrow> [] | Some c \<Rightarrow> c);
                          paragraph = strip content
                      in if paragraph = [] then
                           Inl (HTTPException 502 (py ''LLM returned empty content.''))
                         else Inr paragraph)))"

text \<open>\<open>_enforce_length\<close>.\<close>

definition enforce_length :: "pystr \<Rightarrow> bool \<Rightarrow> exn + pystr \<times> bool" where
  "enforce_length paragraph enforce =
    (if \<not> enforce then Inr (paragraph, False)
     else
       let (paragraph, truncated) =
             (if length paragraph > 500 then (take 500 paragraph, True)
              else (paragraph, False))
       in if length paragraph < 450 then
            Inl (HTTPException 502
                   (py ''Model returned text shorter than 450 characters.''))
          else Inr (paragraph, truncated))"

text \<open>\<open>_maybe_build_image_prompt\<close>: the test is on the tail as given, before \<open>strip\<close>.\<close>

definition maybe_build_image_prompt :: "pystr \<Rightarrow> pystr option \<Rightarrow> pystr" where
  "maybe_build_image_prompt paragraph tail =
    (if truthy tail then
       (case tail of None \<Rightarrow> paragraph | Some t \<Rightarrow> paragraph @ [32] @ strip t)
     else paragraph)"

text \<open>
  \<open>_maybe_generate_image\<close>. Every exception inside the \<open>try\<close> becomes an
  \<open>HTTPException\<close>, also the \<open>AttributeError\<close> of \<open>data.get\<close> on a document that is not
  a dict.
\<close>

definition maybe_generate_image :: "world \<Rightarrow> pystr \<Rightarrow> event list \<times> (exn + pyval)" where
  "maybe_generate_image w prompt =
    (let image_api_url = getenv w (py ''IMAGE_API_URL'') in
     case image_api_url of
       None \<Rightarrow> ([], Inr PyNone)
     | Some url \<Rightarrow>
         if url = [] then ([], Inr PyNone)
         else
           ([HttpxPost url prompt 60],
            case httpx_post w url prompt 60 of
              PostRaises exc \<Rightarrow>
                Inl (HTTPException 502 (py ''Image backend error: '' @ exc))
            | PostReturns response \<Rightarrow>
                (case raise_for_status response of
                   Some exc \<Rightarrow>
                     Inl (HTTPException 502 (py ''Image backend error: '' @ exc))
                 | None \<Rightarrow>
                     (case json response of
                        Inl exc \<Rightarrow>
                          Inl (HTTPException 502 (py ''Image backend error: '' @ exc))
                      | Inr data \<Rightarrow>
                          (case data of
                             PyDict kvs \<Rightarrow>
                               Inr (or_val (dict_get kvs (py ''url''))
                                      (dict_get kvs (py ''image_url'')))
                           | other \<Rightarrow>
                               Inl (HTTPException 502
                                      (py ''Image backend error: '' @
                                       py ([CHR 0x27] @ type_name data @ [CHR 0x27] @
                                           '' object has no attribute '' @
                                           [CHR 0x27] @ ''get'' @ [CHR 0x27]))))))))"

text \<open>
  The route \<open>flipflop\<close> of \<open>main.py\<close>. An exception of a collaborator leaves the
  handler as it is. The response is built from the four values as they are:
  \<open>FlipFlopResponse(...)\<close> validates its fields in the library, and what it does with an
  \<open>image_url\<close> that is neither a string nor \<open>None\<close> (refuse it, or turn a number into
  text) depends on the library's version. That check is left out, so every run that
  succeeds in the code succeeds here, with the same fields present; no statement below
  says that a run with such an \<open>image_url\<close> succeeds.
\<close>

definition flipflop :: "world \<Rightarrow> FlipFlopRequest \<Rightarrow> event list \<times> (exn + FlipFlopResponse)" where
  "flipflop w payload =
    (case call_flipflop_llm w (strip (rq_noun1 payload)) (strip (rq_noun2 payload)) of
       (ev1, Inl e) \<Rightarrow> (ev1, Inl e)
     | (ev1, Inr paragraph0) \<Rightarrow>
         (case enforce_length paragraph0 (rq_enforce_length payload) of
            Inl e \<Rightarrow> (ev1, Inl e)
          | Inr (paragraph1, truncated1) \<Rightarrow>
              if rq_request_image payload then
                (let image_prompt1 =
                       maybe_build_image_prompt paragraph1 (rq_image_style_tail payload)
                 in case maybe_generate_image w image_prompt1 of
                      (ev2, Inl e) \<Rightarrow> (ev1 @ ev2, Inl e)
                    | (ev2, Inr image_url1) \<Rightarrow>
                        (ev1 @ ev2,
                         Inr \<lparr>rs_paragraph = paragraph1, rs_truncated = truncated1,
                              rs_image_prompt = Some image_prompt1,
                              rs_image_url = image_url1\<rparr>))
              else
                (ev1,
                 Inr \<lparr>rs_paragraph = paragraph1, rs_truncated = truncated1,
                      rs_image_prompt = None, rs_image_url = PyNone\<rparr>)))"

section \<open>fastapi_app/main.py\<close>

text \<open>
  The route \<open>flipflop\<close> of \<open>fastapi_app/main.py\<close>. It calls \<open>run_flipflop\<close> with the
  request's fields as they are, turns a \<open>FlipFlopError\<close> into an \<open>HTTPException\<close> with
  status 502 and \<open>str(exc)\<close> as detail, and lets every other exception pass. The function
  it calls, \<open>run_flipflop\<close> of \<open>flipflop_engine/core.py\<close>, is not among the sources; it
  is the parameter \<open>run\<close>.
\<close>

definition fastapi_app_flipflop ::
  "(pystr \<Rightarrow> pystr \<Rightarrow> bool \<Rightarrow> bool \<Rightarrow> pystr option \<Rightarrow>
      event list \<times> (exn + pystr \<times> bool \<times> pystr option \<times> pyval)) \<Rightarrow>
   FlipFlopRequest \<Rightarrow> event list \<times> (exn + FlipFlopResponse)" where
  "fastapi_app_flipflop run payload =
    (case run (rq_noun1 payload) (rq_noun2 payload) (rq_enforce_length payload)
            (rq_request_image payload) (rq_image_style_tail payload) of
       (ev, Inl exc) \<Rightarrow>
         (case exc of
            FlipFlopError msg \<Rightarrow> (ev, Inl (HTTPException 502 msg))
          | other \<Rightarrow> (ev, Inl exc))
     | (ev, Inr (paragraph1, truncated1, image_prompt1, image_url1)) \<Rightarrow>
         (ev,
          Inr \<lparr>rs_paragraph = paragraph1, rs_truncated = truncated1,
               rs_image_prompt = image_prompt1, rs_image_url = image_url1\<rparr>))"

section \<open>Sample worlds and requests\<close>

text \<open>
  A process environment from a list of settings, and a world in which the LLM answers
  every call with one given outcome and the image backend with another.
\<close>

definition env_of :: "(string \<times> string) list \<Rightarrow> pystr \<Rightarrow> pystr option" where
  "env_of settings = map_of (map (\<lambda>(k, v). (py k, py v)) settings)"

definition sample_world ::
  "(string \<times> string) list \<Rightarrow> create_outcome \<Rightarrow> post_outcome \<Rightarrow> world" where
  "sample_world settings llm backend =
    \<lparr>getenv = env_of settings, openai_installed = True,
     FLIPFLOP_SYSTEM_PROMPT = py ''# FLIPFLOP_ENGINE SPECIFICATION'',
     chat_completions_create = (\<lambda>client model messages temperature. llm),
     httpx_post = (\<lambda>url prompt timeout. backend)\<rparr>"

definition sample_request :: "bool \<Rightarrow> bool \<Rightarrow> pystr option \<Rightarrow> FlipFlopRequest" where
  "sample_request enforce request_image tail =
    \<lparr>rq_noun1 = py ''teapot'', rq_noun2 = py ''cactus'', rq_enforce_length = enforce,
     rq_request_image = request_image, rq_image_style_tail = tail\<rparr>"

text \<open>A paragraph of \<open>n\<close> letters \<open>a\<close>.\<close>

definition letters :: "nat \<Rightarrow> pystr" where
  "letters n = replicate n 97"

text \<open>
  Two environments: one with an API key only, one that also names an image backend.
  With either, the adapter of \<open>main.py\<close> issues \<open>sample_chat_call\<close> for the nouns of
  \<open>sample_request\<close>.
\<close>

definition key_only :: "(string \<times> string) list" where
  "key_only = [(''OPENAI_API_KEY'', ''sk-test'')]"

definition key_and_image :: "(string \<times> string) list" where
  "key_and_image = [(''OPENAI_API_KEY'', ''sk-test''), (''IMAGE_API_URL'', ''http://img/api'')]"

definition sample_client :: llm_client where
  "sample_client = OpenAI (py ''sk-test'') None"

definition sample_messages :: "(pystr \<times> pystr) list" where
  "sample_messages =
    [(py ''system'', py ''# FLIPFLOP_ENGINE SPECIFICATION''),
     (py ''user'', py ''A: teapot'' @ [10] @ py ''B: cactus'')]"

definition sample_chat_call :: event where
  "sample_chat_call = ChatCompletionsCreate sample_client (py ''gpt-4o-mini'') sample_messages 0"

text \<open>Environments that set all three key names, the last two, and the last one.\<close>

definition three_keys :: "(string \<times> string) list" where
  "three_keys =
    [(''AZURE_OPENAI_API_KEY'', ''key-a''), (''OPENAI_API_KEY'', ''key-b''),
     (''OPENAI_APIKEY'', ''key-c'')]"

definition two_keys :: "(string \<times> string) list" where
  "two_keys = [(''OPENAI_API_KEY'', ''key-b''), (''OPENAI_APIKEY'', ''key-c'')]"

definition last_key :: "(string \<times> string) list" where
  "last_key = [(''OPENAI_APIKEY'', ''key-c'')]"

text \<open>An environment that sets the first key name to the empty string.\<close>

definition empty_key :: "(string \<times> string) list" where
  "empty_key = [(''AZURE_OPENAI_API_KEY'', [])]"

text \<open>
  A world with the given environment; its LLM returns no choices and its image backend
  cannot be reached.
\<close>

definition keyed_world :: "(string \<times> string) list \<Rightarrow> world" where
  "keyed_world settings = sample_world settings (Completion []) (PostRaises [])"

text \<open>A successful response of the image backend whose body parses to \<open>data\<close>.\<close>

definition ok_response :: "pyval \<Rightarrow> post_outcome" where
  "ok_response data = PostReturns \<lparr>raise_for_status = None, json = Inr data\<rparr>"

text \<open>A world whose image backend is configured and answers with the document \<open>data\<close>.\<close>

definition image_world :: "pyval \<Rightarrow> world" where
  "image_world data = sample_world key_and_image (Completion []) (ok_response data)"

text \<open>The messages of two failures.\<close>

definition missing_key :: pystr where
  "missing_key = py ''Missing OPENAI_API_KEY or AZURE_OPENAI_API_KEY.''"

definition too_short :: pystr where
  "too_short = py ''Model returned text shorter than 450 characters.''"

section \<open>Strings\<close>

lemma strip_unchanged:
  "s \<noteq> [] \<Longrightarrow> \<not> isspace (hd s) \<Longrightarrow> \<not> isspace (last s) \<Longrightarrow> strip s = s"
proof -
  assume ne: "s \<noteq> []" and h: "\<not> isspace (hd s)" and l: "\<not> isspace (last s)"
  have a: "dropWhile isspace s = s"
    using h by (simp add: dropWhile_eq_self_iff)
  have b: "dropWhile isspace (rev s) = rev s"
    using ne l by (simp add: dropWhile_eq_self_iff hd_rev)
  show ?thesis by (simp add: strip_def a b)
qed

lemma isspace_letter: "\<not> isspace 97"
  by (simp add: isspace_def)

lemma strip_letters: "strip (letters n) = letters n"
proof (cases n)
  case 0
  then show ?thesis by (simp add: letters_def strip_def)
next
  case (Suc m)
  then show ?thesis
    by (simp add: letters_def strip_unchanged isspace_letter)
qed

lemma length_letters: "length (letters n) = n"
  by (simp add: letters_def)

lemma take_letters: "take m (letters n) = letters (min m n)"
  by (simp add: letters_def)

lemma letters_nonempty: "0 < n \<Longrightarrow> letters n \<noteq> []"
  by (simp add: letters_def)

lemma strip_teapot: "strip (py ''teapot'') = py ''teapot''"
  by (simp add: strip_def py_def isspace_def)

lemma strip_cactus: "strip (py ''cactus'') = py ''cactus''"
  by (simp add: strip_def py_def isspace_def)

section \<open>The sample worlds, evaluated\<close>

lemma getenv_sample: "getenv (sample_world settings llm backend) = env_of settings"
  by (simp add: sample_world_def)

lemma env_key_only:
  "env_of key_only k = (if k = py ''OPENAI_API_KEY'' then Some (py ''sk-test'') else None)"
  by (simp add: env_of_def key_only_def)

lemma env_key_and_image:
  "env_of key_and_image k =
     (if k = py ''OPENAI_API_KEY'' then Some (py ''sk-test'')
      else if k = py ''IMAGE_API_URL'' then Some (py ''http://img/api'') else None)"
  by (simp add: env_of_def key_and_image_def)

lemma build_llm_client_key_only:
  "build_llm_client (sample_world key_only llm backend) = Inr sample_client"
  by (simp add: build_llm_client_def getenv_sample env_key_only or_else_def sample_client_def)
     (simp add: py_def sample_world_def)

lemma build_llm_client_key_and_image:
  "build_llm_client (sample_world key_and_image llm backend) = Inr sample_client"
  by (simp add: build_llm_client_def getenv_sample env_key_and_image or_else_def sample_client_def)
     (simp add: py_def sample_world_def)

lemma model_key_only:
  "or_else (env_of key_only (py ''OPENAI_MODEL'')) (env_of key_only (py ''AZURE_OPENAI_DEPLOYMENT'')) = None"
  by (simp add: env_key_only or_else_def) (simp add: py_def)

lemma model_key_and_image:
  "or_else (env_of key_and_image (py ''OPENAI_MODEL''))
     (env_of key_and_image (py ''AZURE_OPENAI_DEPLOYMENT'')) = None"
  by (simp add: env_key_and_image or_else_def) (simp add: py_def)

lemma call_key_only:
  "call_flipflop_llm (sample_world key_only llm backend) (py ''teapot'') (py ''cactus'') =
     ([sample_chat_call],
      case llm of
        CreateRaises exc \<Rightarrow> Inl (HTTPException 502 (py ''LLM call failed: '' @ exc))
      | Completion choices \<Rightarrow>
          (case choices of
             [] \<Rightarrow> Inl (HTTPException 502 (py ''LLM returned no choices.''))
           | choice # rest \<Rightarrow>
               if strip (case choice of None \<Rightarrow> [] | Some c \<Rightarrow> c) = [] then
                 Inl (HTTPException 502 (py ''LLM returned empty content.''))
               else Inr (strip (case choice of None \<Rightarrow> [] | Some c \<Rightarrow> c))))"
  by (simp add: call_flipflop_llm_def build_llm_client_key_only getenv_sample model_key_only
        sample_chat_call_def sample_messages_def)
     (simp add: sample_world_def py_def Let_def split: create_outcome.splits list.splits)

lemma call_key_and_image:
  "call_flipflop_llm (sample_world key_and_image llm backend) (py ''teapot'') (py ''cactus'') =
     ([sample_chat_call],
      case llm of
        CreateRaises exc \<Rightarrow> Inl (HTTPException 502 (py ''LLM call failed: '' @ exc))
      | Completion choices \<Rightarrow>
          (case choices of
             [] \<Rightarrow> Inl (HTTPException 502 (py ''LLM returned no choices.''))
           | choice # rest \<Rightarrow>
               if strip (case choice of None \<Rightarrow> [] | Some c \<Rightarrow> c) = [] then
                 Inl (HTTPException 502 (py ''LLM returned empty content.''))
               else Inr (strip (case choice of None \<Rightarrow> [] | Some c \<Rightarrow> c))))"
  by (simp add: call_flipflop_llm_def build_llm_client_key_and_image getenv_sample
        model_key_and_image sample_chat_call_def sample_messages_def)
     (simp add: sample_world_def py_def Let_def split: create_outcome.splits list.splits)

lemma image_key_and_image:
  "maybe_generate_image (sample_world key_and_image llm (ok_response data)) prompt =
     ([HttpxPost (py ''http://img/api'') prompt 60],
      case data of
        PyDict kvs \<Rightarrow> Inr (or_val (dict_get kvs (py ''url'')) (dict_get kvs (py ''image_url'')))
      | other \<Rightarrow>
          Inl (HTTPException 502
                 (py ''Image backend error: '' @
                  py ([CHR 0x27] @ type_name data @ [CHR 0x27] @
                      '' object has no attribute '' @ [CHR 0x27] @ ''get'' @ [CHR 0x27]))))"
  by (simp add: maybe_generate_image_def getenv_sample env_key_and_image)
     (simp add: py_def sample_world_def ok_response_def)

lemma getenv_keyed: "getenv (keyed_world settings) = env_of settings"
  by (simp add: keyed_world_def getenv_sample)

lemma installed_keyed: "openai_installed (keyed_world settings)"
  by (simp add: keyed_world_def sample_world_def)

section \<open>The length enforcer\<close>

text \<open>
  C1. With enforcement on, a paragraph longer than 500 characters comes back as exactly
  its first 500 characters, flagged as truncated, and that result has length 500.
\<close>

theorem enforce_length_truncates:
  "500 < length p \<Longrightarrow>
     enforce_length p True = Inr (take 500 p, True) \<and> length (take 500 p) = 500"
  by (simp add: enforce_length_def)

theorem enforce_length_truncates_witness:
  "500 < length (letters 520) \<and>
   enforce_length (letters 520) True = Inr (take 500 (letters 520), True) \<and>
   length (take 500 (letters 520)) = 500"
  using enforce_length_truncates [of "letters 520"] by (simp add: length_letters)

text \<open>
  C3. With enforcement on, a paragraph of 450 to 500 characters comes back unchanged and
  not flagged as truncated; the bounds 450 and 500 themselves are accepted.
\<close>

theorem enforce_length_in_range:
  "450 \<le> length p \<Longrightarrow> length p \<le> 500 \<Longrightarrow> enforce_length p True = Inr (p, False)"
  by (simp add: enforce_length_def)

theorem enforce_length_in_range_witness:
  "450 \<le> length (letters 450) \<and> length (letters 450) \<le> 500 \<and>
   enforce_length (letters 450) True = Inr (letters 450, False) \<and>
   450 \<le> length (letters 500) \<and> length (letters 500) \<le> 500 \<and>
   enforce_length (letters 500) True = Inr (letters 500, False)"
  using enforce_length_in_range [of "letters 450"] enforce_length_in_range [of "letters 500"]
  by (simp add: length_letters)

text \<open>
  C10. The enforcer is idempotent: whenever it accepts a paragraph and returns \<open>(q, t)\<close>,
  enforcing \<open>q\<close> again succeeds and returns \<open>q\<close> with the truncation flag off.
\<close>

theorem enforce_length_idempotent:
  "enforce_length p True = Inr (q, t) \<Longrightarrow> enforce_length q True = Inr (q, False)"
  by (auto simp: enforce_length_def split: if_splits)

theorem enforce_length_idempotent_witness:
  "enforce_length (letters 520) True = Inr (letters 500, True) \<and>
   enforce_length (letters 500) True = Inr (letters 500, False)"
proof -
  have h: "enforce_length (letters 520) True = Inr (letters 500, True)"
    by (simp add: enforce_length_def length_letters take_letters)
  show ?thesis using h enforce_length_idempotent [OF h] by simp
qed

section \<open>The image prompt builder\<close>

text \<open>
  C4. The prompt is the paragraph, a space and the trimmed tail when the tail is not
  empty after trimming, and the paragraph alone otherwise. The code tests the tail
  before trimming it: on the paragraph \<open>abc\<close> and a tail of three spaces it returns
  \<open>abc\<close> followed by a space, not \<open>abc\<close>.
\<close>

theorem blank_tail_appends_space:
  "maybe_build_image_prompt (py ''abc'') (Some (py ''   '')) = py ''abc '' \<and>
   maybe_build_image_prompt (py ''abc'') (Some (py ''   '')) \<noteq> py ''abc''"
  by (simp add: maybe_build_image_prompt_def strip_def py_def isspace_def)

section \<open>The LLM client adapter\<close>

lemma build_llm_client_no_key:
  assumes "\<not> truthy (getenv w (py ''AZURE_OPENAI_API_KEY''))"
    and "\<not> truthy (getenv w (py ''OPENAI_API_KEY''))"
    and "\<not> truthy (getenv w (py ''OPENAI_APIKEY''))"
  shows "build_llm_client w = Inl (RuntimeError missing_key)"
proof (cases "getenv w (py ''OPENAI_APIKEY'')")
  case None
  with assms show ?thesis
    by (simp add: build_llm_client_def or_else_def missing_key_def)
next
  case (Some k)
  with assms show ?thesis
    by (simp add: build_llm_client_def or_else_def missing_key_def)
qed

lemma build_llm_client_key:
  assumes "openai_installed w"
    and "or_else (getenv w (py ''AZURE_OPENAI_API_KEY''))
           (or_else (getenv w (py ''OPENAI_API_KEY'')) (getenv w (py ''OPENAI_APIKEY''))) = Some k"
    and "k \<noteq> []"
  shows "\<exists>client. build_llm_client w = Inr client \<and> client_api_key client = k"
  using assms by (simp add: build_llm_client_def Let_def)

text \<open>
  In the route of \<open>main.py\<close> a failure to build the client leaves the handler as the
  exception it is, before any outbound call.
\<close>

lemma main_route_missing_key:
  assumes "build_llm_client w = Inl e"
  shows "flipflop w r = ([], Inl e)"
  using assms by (simp add: flipflop_def call_flipflop_llm_def)

text \<open>
  C6, as stated, says that the failure on a missing key is surfaced to the caller as an
  upstream-failure response. With no key name set, the route of \<open>main.py\<close> ends with
  the \<open>RuntimeError\<close> of \<open>_build_llm_client\<close> itself, not with the \<open>HTTPException\<close> of
  status 502 that the other failures are raised as.
\<close>

theorem missing_key_not_surfaced:
  "getenv (keyed_world []) (py ''AZURE_OPENAI_API_KEY'') = None \<and>
   getenv (keyed_world []) (py ''OPENAI_API_KEY'') = None \<and>
   getenv (keyed_world []) (py ''OPENAI_APIKEY'') = None \<and>
   flipflop (keyed_world []) (sample_request True False None) =
     ([], Inl (RuntimeError missing_key)) \<and>
   snd (flipflop (keyed_world []) (sample_request True False None)) \<noteq>
     Inl (HTTPException 502 missing_key)"
proof -
  have e0: "getenv (keyed_world []) k = None" for k
    by (simp add: getenv_keyed env_of_def)
  have b: "build_llm_client (keyed_world []) = Inl (RuntimeError missing_key)"
    by (simp add: build_llm_client_no_key e0)
  show ?thesis
    by (simp add: e0 main_route_missing_key [OF b])
qed

text \<open>
  C6, amended. When each of the three key names is unset or empty, the adapter fails
  with the \<open>RuntimeError\<close> that reports the missing key, and the run of \<open>main.py\<close> ends
  with that \<open>RuntimeError\<close> unchanged, before any outbound call. With the client package
  installed, the client is built with the value of \<open>AZURE_OPENAI_API_KEY\<close> when that is
  set and not empty, else with the value of \<open>OPENAI_API_KEY\<close>, else with the value of
  \<open>OPENAI_APIKEY\<close>.
\<close>

theorem api_key_resolution:
  "(\<not> truthy (getenv w (py ''AZURE_OPENAI_API_KEY'')) \<and>
    \<not> truthy (getenv w (py ''OPENAI_API_KEY'')) \<and>
    \<not> truthy (getenv w (py ''OPENAI_APIKEY'')) \<longrightarrow>
      build_llm_client w = Inl (RuntimeError missing_key) \<and>
      flipflop w r = ([], Inl (RuntimeError missing_key))) \<and>
   (openai_installed w \<and> getenv w (py ''AZURE_OPENAI_API_KEY'') = Some k \<and> k \<noteq> [] \<longrightarrow>
      (\<exists>client. build_llm_client w = Inr client \<and> client_api_key client = k)) \<and>
   (openai_installed w \<and> \<not> truthy (getenv w (py ''AZURE_OPENAI_API_KEY'')) \<and>
    getenv w (py ''OPENAI_API_KEY'') = Some k \<and> k \<noteq> [] \<longrightarrow>
      (\<exists>client. build_llm_client w = Inr client \<and> client_api_key client = k)) \<and>
   (openai_installed w \<and> \<not> truthy (getenv w (py ''AZURE_OPENAI_API_KEY'')) \<and>
    \<not> truthy (getenv w (py ''OPENAI_API_KEY'')) \<and>
    getenv w (py ''OPENAI_APIKEY'') = Some k \<and> k \<noteq> [] \<longrightarrow>
      (\<exists>client. build_llm_client w = Inr client \<and> client_api_key client = k))"
proof (intro conjI impI)
  assume a: "\<not> truthy (getenv w (py ''AZURE_OPENAI_API_KEY'')) \<and>
    \<not> truthy (getenv w (py ''OPENAI_API_KEY'')) \<and>
    \<not> truthy (getenv w (py ''OPENAI_APIKEY''))"
  then show b: "build_llm_client w = Inl (RuntimeError missing_key)"
    by (simp add: build_llm_client_no_key)
  show "flipflop w r = ([], Inl (RuntimeError missing_key))"
    by (rule main_route_missing_key [OF b])
next
  assume "openai_installed w \<and> getenv w (py ''AZURE_OPENAI_API_KEY'') = Some k \<and> k \<noteq> []"
  then show "\<exists>client. build_llm_client w = Inr client \<and> client_api_key client = k"
    by (intro build_llm_client_key) (simp_all add: or_else_def)
next
  assume "openai_installed w \<and> \<not> truthy (getenv w (py ''AZURE_OPENAI_API_KEY'')) \<and>
    getenv w (py ''OPENAI_API_KEY'') = Some k \<and> k \<noteq> []"
  then show "\<exists>client. build_llm_client w = Inr client \<and> client_api_key client = k"
    by (intro build_llm_client_key) (simp_all add: or_else_def)
next
  assume "openai_installed w \<and> \<not> truthy (getenv w (py ''AZURE_OPENAI_API_KEY'')) \<and>
    \<not> truthy (getenv w (py ''OPENAI_API_KEY'')) \<and>
    getenv w (py ''OPENAI_APIKEY'') = Some k \<and> k \<noteq> []"
  then show "\<exists>client. build_llm_client w = Inr client \<and> client_api_key client = k"
    by (intro build_llm_client_key) (simp_all add: or_else_def)
qed

theorem api_key_resolution_witness:
  "\<not> truthy (getenv (keyed_world []) (py ''AZURE_OPENAI_API_KEY'')) \<and>
   \<not> truthy (getenv (keyed_world []) (py ''OPENAI_API_KEY'')) \<and>
   \<not> truthy (getenv (keyed_world []) (py ''OPENAI_APIKEY'')) \<and>
   build_llm_client (keyed_world []) = Inl (RuntimeError missing_key) \<and>
   flipflop (keyed_world []) (sample_request True False None) =
     ([], Inl (RuntimeError missing_key)) \<and>
   getenv (keyed_world empty_key) (py ''AZURE_OPENAI_API_KEY'') = Some [] \<and>
   \<not> truthy (getenv (keyed_world empty_key) (py ''AZURE_OPENAI_API_KEY'')) \<and>
   \<not> truthy (getenv (keyed_world empty_key) (py ''OPENAI_API_KEY'')) \<and>
   \<not> truthy (getenv (keyed_world empty_key) (py ''OPENAI_APIKEY'')) \<and>
   build_llm_client (keyed_world empty_key) = Inl (RuntimeError missing_key) \<and>
   flipflop (keyed_world empty_key) (sample_request True False None) =
     ([], Inl (RuntimeError missing_key)) \<and>
   openai_installed (keyed_world three_keys) \<and>
   getenv (keyed_world three_keys) (py ''AZURE_OPENAI_API_KEY'') = Some (py ''key-a'') \<and>
   py ''key-a'' \<noteq> [] \<and>
   (\<exists>client. build_llm_client (keyed_world three_keys) = Inr client \<and>
      client_api_key client = py ''key-a'') \<and>
   openai_installed (keyed_world two_keys) \<and>
   \<not> truthy (getenv (keyed_world two_keys) (py ''AZURE_OPENAI_API_KEY'')) \<and>
   getenv (keyed_world two_keys) (py ''OPENAI_API_KEY'') = Some (py ''key-b'') \<and>
   py ''key-b'' \<noteq> [] \<and>
   (\<exists>client. build_llm_client (keyed_world two_keys) = Inr client \<and>
      client_api_key client = py ''key-b'') \<and>
   openai_installed (keyed_world last_key) \<and>
   \<not> truthy (getenv (keyed_world last_key) (py ''AZURE_OPENAI_API_KEY'')) \<and>
   \<not> truthy (getenv (keyed_world last_key) (py ''OPENAI_API_KEY'')) \<and>
   getenv (keyed_world last_key) (py ''OPENAI_APIKEY'') = Some (py ''key-c'') \<and>
   py ''key-c'' \<noteq> [] \<and>
   (\<exists>client. build_llm_client (keyed_world last_key) = Inr client \<and>
      client_api_key client = py ''key-c'')"
proof -
  have e0: "getenv (keyed_world []) k = None" for k
    by (simp add: getenv_keyed env_of_def)
  have ea: "getenv (keyed_world empty_key) (py ''AZURE_OPENAI_API_KEY'') = Some []"
    by (simp add: getenv_keyed env_of_def empty_key_def) (simp add: py_def)
  have eb: "getenv (keyed_world empty_key) (py ''OPENAI_API_KEY'') = None"
    by (simp add: getenv_keyed env_of_def empty_key_def) (simp add: py_def)
  have ec: "getenv (keyed_world empty_key) (py ''OPENAI_APIKEY'') = None"
    by (simp add: getenv_keyed env_of_def empty_key_def) (simp add: py_def)
  have a3: "getenv (keyed_world three_keys) (py ''AZURE_OPENAI_API_KEY'') = Some (py ''key-a'')"
    by (simp add: getenv_keyed env_of_def three_keys_def)
  have a2: "\<not> truthy (getenv (keyed_world two_keys) (py ''AZURE_OPENAI_API_KEY''))"
    by (simp add: getenv_keyed env_of_def two_keys_def) (simp add: py_def)
  have b2: "getenv (keyed_world two_keys) (py ''OPENAI_API_KEY'') = Some (py ''key-b'')"
    by (simp add: getenv_keyed env_of_def two_keys_def)
  have a1: "\<not> truthy (getenv (keyed_world last_key) (py ''AZURE_OPENAI_API_KEY''))"
    by (simp add: getenv_keyed env_of_def last_key_def) (simp add: py_def)
  have b1: "\<not> truthy (getenv (keyed_world last_key) (py ''OPENAI_API_KEY''))"
    by (simp add: getenv_keyed env_of_def last_key_def) (simp add: py_def)
  have c1: "getenv (keyed_world last_key) (py ''OPENAI_APIKEY'') = Some (py ''key-c'')"
    by (simp add: getenv_keyed env_of_def last_key_def)
  have n: "py ''key-a'' \<noteq> []" "py ''key-b'' \<noteq> []" "py ''key-c'' \<noteq> []"
    by (simp_all add: py_def)
  show ?thesis
    using e0 ea eb ec a3 a2 b2 a1 b1 c1 n installed_keyed
      api_key_resolution [of "keyed_world []" "sample_request True False None"]
      api_key_resolution [of "keyed_world empty_key" "sample_request True False None"]
      api_key_resolution [of "keyed_world three_keys" _ "py ''key-a''"]
      api_key_resolution [of "keyed_world two_keys" _ "py ''key-b''"]
      api_key_resolution [of "keyed_world last_key" _ "py ''key-c''"]
    by simp
qed

section \<open>The image client adapter\<close>

lemma maybe_generate_image_unconfigured:
  "\<not> truthy (getenv w (py ''IMAGE_API_URL'')) \<Longrightarrow> maybe_generate_image w prompt = ([], Inr PyNone)"
  by (cases "getenv w (py ''IMAGE_API_URL'')") (simp_all add: maybe_generate_image_def)

text \<open>
  C8, as stated, for every successful response that parses as JSON. It fails on a body
  that is not an object: for the document \<open>[]\<close> neither field is present, and the result
  is an \<open>HTTPException\<close>, not \<open>None\<close>. It also fails on an object whose \<open>url\<close> field is
  present and empty: the result is the value of the \<open>image_url\<close> field, not what the
  \<open>url\<close> field holds.
\<close>

theorem url_extraction_counterexample:
  "maybe_generate_image (image_world (PyList [])) (py ''a teapot'') =
     ([HttpxPost (py ''http://img/api'') (py ''a teapot'') 60],
      Inl (HTTPException 502
             (py ''Image backend error: '' @ [39] @ py ''list'' @ [39] @
              py '' object has no attribute '' @ [39] @ py ''get'' @ [39]))) \<and>
   snd (maybe_generate_image (image_world (PyList [])) (py ''a teapot'')) \<noteq> Inr PyNone \<and>
   map_of [(py ''url'', PyStr []), (py ''image_url'', PyStr (py ''http://x/z.png''))]
     (py ''url'') = Some (PyStr []) \<and>
   maybe_generate_image
     (image_world
        (PyDict [(py ''url'', PyStr []), (py ''image_url'', PyStr (py ''http://x/z.png''))]))
     (py ''a teapot'') =
     ([HttpxPost (py ''http://img/api'') (py ''a teapot'') 60],
      Inr (PyStr (py ''http://x/z.png''))) \<and>
   snd (maybe_generate_image
          (image_world
             (PyDict [(py ''url'', PyStr []), (py ''image_url'', PyStr (py ''http://x/z.png''))]))
          (py ''a teapot'')) \<noteq> Inr (PyStr [])"
  by (simp add: image_world_def image_key_and_image or_val_def dict_get_def)
     (simp add: py_def)

text \<open>
  C8, amended. For every successful response whose body parses as JSON, one POST is
  made. If the body is an object, no error is raised and the result is the value of the
  \<open>url\<close> field when that field is present and true as a Python value; when the \<open>url\<close>
  field is absent or holds a false value (\<open>None\<close>, an empty string, zero), the result is
  the value of the \<open>image_url\<close> field if that field is present and \<open>None\<close> if it is
  absent, so \<open>None\<close> when neither field is present. If the body is not an object, the
  result is the \<open>HTTPException\<close> of status 502 that carries the \<open>AttributeError\<close>.
\<close>

theorem image_url_from_response:
  assumes "getenv w (py ''IMAGE_API_URL'') = Some url" and "url \<noteq> []"
    and "httpx_post w url prompt 60 = PostReturns response"
    and "raise_for_status response = None"
    and "json response = Inr data"
  shows "fst (maybe_generate_image w prompt) = [HttpxPost url prompt 60] \<and>
         (\<forall>kvs v. data = PyDict kvs \<and> map_of kvs (py ''url'') = Some v \<and> bool_of v \<longrightarrow>
              snd (maybe_generate_image w prompt) = Inr v) \<and>
         (\<forall>kvs v. data = PyDict kvs \<and> \<not> bool_of (dict_get kvs (py ''url'')) \<and>
              map_of kvs (py ''image_url'') = Some v \<longrightarrow>
              snd (maybe_generate_image w prompt) = Inr v) \<and>
         (\<forall>kvs. data = PyDict kvs \<and> \<not> bool_of (dict_get kvs (py ''url'')) \<and>
              map_of kvs (py ''image_url'') = None \<longrightarrow>
              snd (maybe_generate_image w prompt) = Inr PyNone) \<and>
         (\<forall>kvs. data = PyDict kvs \<and> map_of kvs (py ''url'') = None \<and>
              map_of kvs (py ''image_url'') = None \<longrightarrow>
              snd (maybe_generate_image w prompt) = Inr PyNone) \<and>
         ((\<forall>kvs. data \<noteq> PyDict kvs) \<longrightarrow>
              snd (maybe_generate_image w prompt) =
                Inl (HTTPException 502
                       (py ''Image backend error: '' @
                        py ([CHR 0x27] @ type_name data @ [CHR 0x27] @
                            '' object has no attribute '' @ [CHR 0x27] @ ''get'' @
                            [CHR 0x27]))))"
proof -
  have m: "maybe_generate_image w prompt =
             ([HttpxPost url prompt 60],
              case data of
                PyDict kvs \<Rightarrow>
                  Inr (or_val (dict_get kvs (py ''url'')) (dict_get kvs (py ''image_url'')))
              | other \<Rightarrow>
                  Inl (HTTPException 502
                         (py ''Image backend error: '' @
                          py ([CHR 0x27] @ type_name data @ [CHR 0x27] @
                              '' object has no attribute '' @ [CHR 0x27] @ ''get'' @
                              [CHR 0x27]))))"
    using assms by (simp add: maybe_generate_image_def)
  show ?thesis
    by (cases data) (simp_all add: m or_val_def dict_get_def)
qed

theorem image_url_from_response_witness:
  "getenv (image_world (PyList [])) (py ''IMAGE_API_URL'') = Some (py ''http://img/api'') \<and>
   py ''http://img/api'' \<noteq> [] \<and>
   httpx_post (image_world (PyList [])) (py ''http://img/api'') (py ''a teapot'') 60 =
     PostReturns \<lparr>raise_for_status = None, json = Inr (PyList [])\<rparr> \<and>
   map_of [(py ''url'', PyStr (py ''http://x/y.png''))] (py ''url'') =
     Some (PyStr (py ''http://x/y.png'')) \<and>
   bool_of (PyStr (py ''http://x/y.png'')) \<and>
   maybe_generate_image (image_world (PyDict [(py ''url'', PyStr (py ''http://x/y.png''))]))
     (py ''a teapot'') =
     ([HttpxPost (py ''http://img/api'') (py ''a teapot'') 60],
      Inr (PyStr (py ''http://x/y.png''))) \<and>
   \<not> bool_of (dict_get [(py ''image_url'', PyStr (py ''http://x/z.png''))] (py ''url'')) \<and>
   map_of [(py ''image_url'', PyStr (py ''http://x/z.png''))] (py ''image_url'') =
     Some (PyStr (py ''http://x/z.png'')) \<and>
   maybe_generate_image
     (image_world (PyDict [(py ''image_url'', PyStr (py ''http://x/z.png''))]))
     (py ''a teapot'') =
     ([HttpxPost (py ''http://img/api'') (py ''a teapot'') 60],
      Inr (PyStr (py ''http://x/z.png''))) \<and>
   \<not> bool_of (dict_get [(py ''url'', PyStr []),
                          (py ''image_url'', PyStr (py ''http://x/z.png''))] (py ''url'')) \<and>
   map_of [(py ''url'', PyStr []), (py ''image_url'', PyStr (py ''http://x/z.png''))]
     (py ''image_url'') = Some (PyStr (py ''http://x/z.png'')) \<and>
   maybe_generate_image
     (image_world
        (PyDict [(py ''url'', PyStr []), (py ''image_url'', PyStr (py ''http://x/z.png''))]))
     (py ''a teapot'') =
     ([HttpxPost (py ''http://img/api'') (py ''a teapot'') 60],
      Inr (PyStr (py ''http://x/z.png''))) \<and>
   \<not> bool_of (dict_get [(py ''url'', PyNone)] (py ''url'')) \<and>
   map_of [(py ''url'', PyNone)] (py ''image_url'') = None \<and>
   maybe_generate_image (image_world (PyDict [(py ''url'', PyNone)])) (py ''a teapot'') =
     ([HttpxPost (py ''http://img/api'') (py ''a teapot'') 60], Inr PyNone) \<and>
   map_of [(py ''status'', PyStr (py ''ok''))] (py ''url'') = None \<and>
   map_of [(py ''status'', PyStr (py ''ok''))] (py ''image_url'') = None \<and>
   maybe_generate_image (image_world (PyDict [(py ''status'', PyStr (py ''ok''))]))
     (py ''a teapot'') =
     ([HttpxPost (py ''http://img/api'') (py ''a teapot'') 60], Inr PyNone) \<and>
   maybe_generate_image (image_world (PyStr (py ''http://x/y.png''))) (py ''a teapot'') =
     ([HttpxPost (py ''http://img/api'') (py ''a teapot'') 60],
      Inl (HTTPException 502
             (py ''Image backend error: '' @ [39] @ py ''str'' @ [39] @
              py '' object has no attribute '' @ [39] @ py ''get'' @ [39])))"
proof -
  have g: "\<And>d. getenv (image_world d) (py ''IMAGE_API_URL'') = Some (py ''http://img/api'')"
    by (simp add: image_world_def getenv_sample env_key_and_image) (simp add: py_def)
  have n: "py ''http://img/api'' \<noteq> []"
    by (simp add: py_def)
  have p: "\<And>d. httpx_post (image_world d) (py ''http://img/api'') (py ''a teapot'') 60 =
             PostReturns \<lparr>raise_for_status = None, json = Inr d\<rparr>"
    by (simp add: image_world_def sample_world_def ok_response_def)
  have s: "raise_for_status \<lparr>raise_for_status = None, json = Inr d\<rparr> = None" for d :: pyval
    by simp
  have j: "json \<lparr>raise_for_status = None, json = Inr d\<rparr> = Inr d" for d :: pyval
    by simp
  have m1: "map_of [(py ''url'', PyStr (py ''http://x/y.png''))] (py ''url'') =
     Some (PyStr (py ''http://x/y.png''))"
    by simp
  have b1: "bool_of (PyStr (py ''http://x/y.png''))"
    by (simp add: py_def)
  have m2: "\<not> bool_of (dict_get [(py ''image_url'', PyStr (py ''http://x/z.png''))] (py ''url''))"
    by (simp add: dict_get_def py_def)
  have m2': "map_of [(py ''image_url'', PyStr (py ''http://x/z.png''))] (py ''image_url'') =
     Some (PyStr (py ''http://x/z.png''))"
    by simp
  have m4: "\<not> bool_of (dict_get [(py ''url'', PyStr []),
                          (py ''image_url'', PyStr (py ''http://x/z.png''))] (py ''url''))"
    by (simp add: dict_get_def)
  have m4': "map_of [(py ''url'', PyStr []), (py ''image_url'', PyStr (py ''http://x/z.png''))]
     (py ''image_url'') = Some (PyStr (py ''http://x/z.png''))"
    by (simp add: py_def)
  have m5: "\<not> bool_of (dict_get [(py ''url'', PyNone)] (py ''url''))"
    by (simp add: dict_get_def)
  have m5': "map_of [(py ''url'', PyNone)] (py ''image_url'') = None"
    by (simp add: py_def)
  have m3: "map_of [(py ''status'', PyStr (py ''ok''))] (py ''url'') = None"
    by (simp add: py_def)
  have m3': "map_of [(py ''status'', PyStr (py ''ok''))] (py ''image_url'') = None"
    by (simp add: py_def)
  have d: "\<forall>kvs. PyStr (py ''http://x/y.png'') \<noteq> PyDict kvs"
    by simp
  note t1 = image_url_from_response [OF g n p s j,
      of "PyDict [(py ''url'', PyStr (py ''http://x/y.png''))]"]
  note t2 = image_url_from_response [OF g n p s j,
      of "PyDict [(py ''image_url'', PyStr (py ''http://x/z.png''))]"]
  note t4 = image_url_from_response [OF g n p s j,
      of "PyDict [(py ''url'', PyStr []), (py ''image_url'', PyStr (py ''http://x/z.png''))]"]
  note t5 = image_url_from_response [OF g n p s j, of "PyDict [(py ''url'', PyNone)]"]
  note t3 = image_url_from_response [OF g n p s j,
      of "PyDict [(py ''status'', PyStr (py ''ok''))]"]
  note t6 = image_url_from_response [OF g n p s j, of "PyStr (py ''http://x/y.png'')"]
  have r1: "maybe_generate_image (image_world (PyDict [(py ''url'', PyStr (py ''http://x/y.png''))]))
     (py ''a teapot'') =
     ([HttpxPost (py ''http://img/api'') (py ''a teapot'') 60],
      Inr (PyStr (py ''http://x/y.png'')))"
    using t1 m1 b1 by (simp add: prod_eq_iff)
  have r2: "maybe_generate_image
     (image_world (PyDict [(py ''image_url'', PyStr (py ''http://x/z.png''))]))
     (py ''a teapot'') =
     ([HttpxPost (py ''http://img/api'') (py ''a teapot'') 60],
      Inr (PyStr (py ''http://x/z.png'')))"
    using t2 m2 m2' by (simp add: prod_eq_iff)
  have r4: "maybe_generate_image
     (image_world
        (PyDict [(py ''url'', PyStr []), (py ''image_url'', PyStr (py ''http://x/z.png''))]))
     (py ''a teapot'') =
     ([HttpxPost (py ''http://img/api'') (py ''a teapot'') 60],
      Inr (PyStr (py ''http://x/z.png'')))"
    using t4 m4 m4' by (simp add: prod_eq_iff)
  have r5: "maybe_generate_image (image_world (PyDict [(py ''url'', PyNone)])) (py ''a teapot'') =
     ([HttpxPost (py ''http://img/api'') (py ''a teapot'') 60], Inr PyNone)"
    using t5 m5 m5' by (simp add: prod_eq_iff)
  have r3: "maybe_generate_image (image_world (PyDict [(py ''status'', PyStr (py ''ok''))]))
     (py ''a teapot'') =
     ([HttpxPost (py ''http://img/api'') (py ''a teapot'') 60], Inr PyNone)"
    using t3 m3 m3' by (simp add: prod_eq_iff)
  have r6: "maybe_generate_image (image_world (PyStr (py ''http://x/y.png''))) (py ''a teapot'') =
     ([HttpxPost (py ''http://img/api'') (py ''a teapot'') 60],
      Inl (HTTPException 502
             (py ''Image backend error: '' @ [39] @ py ''str'' @ [39] @
              py '' object has no attribute '' @ [39] @ py ''get'' @ [39])))"
    using t6 d by (simp add: prod_eq_iff py_def)
  show ?thesis
    using g n p m1 b1 m2 m2' m4 m4' m5 m5' m3 m3' r1 r2 r3 r4 r5 r6 t1 t2 t3 t4 t5 t6
    by simp
qed

section \<open>The orchestrator\<close>

lemma call_flipflop_llm_events:
  "call_flipflop_llm w a b = (ev, Inr q) \<Longrightarrow>
     \<exists>client model messages. ev = [ChatCompletionsCreate client model messages 0]"
  by (auto simp: call_flipflop_llm_def Let_def split: sum.splits)

lemma call_flipflop_llm_no_post: "filter is_post (fst (call_flipflop_llm w a b)) = []"
  by (auto simp: call_flipflop_llm_def Let_def split: sum.splits)

text \<open>
  C2. With enforcement on, a paragraph that is shorter than 450 characters after any
  truncation is refused with the \<open>HTTPException\<close> (status 502) that reports the short
  text. In the pipeline, a paragraph of fewer than 450 characters from the adapter (400,
  say) makes the run end with that exception; the only outbound call of the run is the
  one chat completion call, so nothing is retried and no image is asked for.
\<close>

theorem short_paragraph_rejected:
  "(length (take 500 p) < 450 \<longrightarrow>
      enforce_length p True =
        Inl (HTTPException 502 (too_short))) \<and>
   (call_flipflop_llm w (strip (rq_noun1 r)) (strip (rq_noun2 r)) = (ev, Inr q) \<and>
    length q < 450 \<and> rq_enforce_length r \<longrightarrow>
      flipflop w r =
        (ev, Inl (HTTPException 502 (too_short))) \<and>
      (\<exists>client model messages. ev = [ChatCompletionsCreate client model messages 0]))"
proof (intro conjI impI)
  assume "length (take 500 p) < 450"
  then show "enforce_length p True =
        Inl (HTTPException 502 (too_short))"
    by (auto simp: enforce_length_def too_short_def)
next
  assume a: "call_flipflop_llm w (strip (rq_noun1 r)) (strip (rq_noun2 r)) = (ev, Inr q) \<and>
    length q < 450 \<and> rq_enforce_length r"
  then have "enforce_length q (rq_enforce_length r) =
        Inl (HTTPException 502 (too_short))"
    by (simp add: enforce_length_def too_short_def)
  with a show "flipflop w r =
        (ev, Inl (HTTPException 502 (too_short)))"
    by (simp add: flipflop_def)
next
  assume a: "call_flipflop_llm w (strip (rq_noun1 r)) (strip (rq_noun2 r)) = (ev, Inr q) \<and>
    length q < 450 \<and> rq_enforce_length r"
  then show "\<exists>client model messages. ev = [ChatCompletionsCreate client model messages 0]"
    using call_flipflop_llm_events by blast
qed

theorem short_paragraph_rejected_witness:
  "length (take 500 (letters 400)) < 450 \<and>
   enforce_length (letters 400) True = Inl (HTTPException 502 too_short) \<and>
   call_flipflop_llm (sample_world key_only (Completion [Some (letters 400)]) (PostRaises []))
     (strip (rq_noun1 (sample_request True False None)))
     (strip (rq_noun2 (sample_request True False None))) =
     ([sample_chat_call], Inr (letters 400)) \<and>
   length (letters 400) < 450 \<and> rq_enforce_length (sample_request True False None) \<and>
   flipflop (sample_world key_only (Completion [Some (letters 400)]) (PostRaises []))
     (sample_request True False None) =
     ([sample_chat_call], Inl (HTTPException 502 too_short))"
proof -
  have c: "call_flipflop_llm
     (sample_world key_only (Completion [Some (letters 400)]) (PostRaises []))
     (strip (rq_noun1 (sample_request True False None)))
     (strip (rq_noun2 (sample_request True False None))) =
     ([sample_chat_call], Inr (letters 400))"
    by (simp add: sample_request_def strip_teapot strip_cactus call_key_only strip_letters
          letters_nonempty)
  have e: "rq_enforce_length (sample_request True False None)"
    by (simp add: sample_request_def)
  show ?thesis
    using c e
      short_paragraph_rejected [of "letters 400"
        "sample_world key_only (Completion [Some (letters 400)]) (PostRaises [])"
        "sample_request True False None" "[sample_chat_call]" "letters 400"]
    by (simp add: length_letters)
qed

text \<open>
  C5. When the chat completion call that the adapter issues raises, the run ends with
  the adapter's \<open>HTTPException\<close> (status 502, the cause in its detail) unchanged; the
  run returns no response, and its outbound calls hold no POST to the image backend.
\<close>

theorem llm_failure_fails_run:
  assumes "fst (call_flipflop_llm w (strip (rq_noun1 r)) (strip (rq_noun2 r))) =
             [ChatCompletionsCreate client model messages temperature]"
    and "chat_completions_create w client model messages temperature = CreateRaises exc"
  shows "call_flipflop_llm w (strip (rq_noun1 r)) (strip (rq_noun2 r)) =
           ([ChatCompletionsCreate client model messages temperature],
            Inl (HTTPException 502 (py ''LLM call failed: '' @ exc))) \<and>
         flipflop w r =
           ([ChatCompletionsCreate client model messages temperature],
            Inl (HTTPException 502 (py ''LLM call failed: '' @ exc))) \<and>
         filter is_post (fst (flipflop w r)) = []"
proof -
  have c: "call_flipflop_llm w (strip (rq_noun1 r)) (strip (rq_noun2 r)) =
           ([ChatCompletionsCreate client model messages temperature],
            Inl (HTTPException 502 (py ''LLM call failed: '' @ exc)))"
    using assms by (auto simp: call_flipflop_llm_def Let_def split: sum.splits)
  then have f: "flipflop w r =
           ([ChatCompletionsCreate client model messages temperature],
            Inl (HTTPException 502 (py ''LLM call failed: '' @ exc)))"
    by (simp add: flipflop_def)
  from c f show ?thesis by simp
qed

theorem llm_failure_fails_run_witness:
  "fst (call_flipflop_llm
          (sample_world key_and_image (CreateRaises (py ''Connection error.'')) (ok_response PyNone))
          (strip (rq_noun1 (sample_request True True None)))
          (strip (rq_noun2 (sample_request True True None)))) =
     [ChatCompletionsCreate sample_client (py ''gpt-4o-mini'') sample_messages 0] \<and>
   chat_completions_create
     (sample_world key_and_image (CreateRaises (py ''Connection error.'')) (ok_response PyNone))
     sample_client (py ''gpt-4o-mini'') sample_messages 0 =
     CreateRaises (py ''Connection error.'') \<and>
   flipflop
     (sample_world key_and_image (CreateRaises (py ''Connection error.'')) (ok_response PyNone))
     (sample_request True True None) =
     ([ChatCompletionsCreate sample_client (py ''gpt-4o-mini'') sample_messages 0],
      Inl (HTTPException 502 (py ''LLM call failed: '' @ py ''Connection error.''))) \<and>
   filter is_post
     (fst (flipflop
        (sample_world key_and_image (CreateRaises (py ''Connection error.'')) (ok_response PyNone))
        (sample_request True True None))) = []"
proof -
  have c: "fst (call_flipflop_llm
          (sample_world key_and_image (CreateRaises (py ''Connection error.'')) (ok_response PyNone))
          (strip (rq_noun1 (sample_request True True None)))
          (strip (rq_noun2 (sample_request True True None)))) =
     [ChatCompletionsCreate sample_client (py ''gpt-4o-mini'') sample_messages 0]"
    by (simp add: sample_request_def strip_teapot strip_cactus call_key_and_image
          sample_chat_call_def)
  have r: "chat_completions_create
     (sample_world key_and_image (CreateRaises (py ''Connection error.'')) (ok_response PyNone))
     sample_client (py ''gpt-4o-mini'') sample_messages 0 =
     CreateRaises (py ''Connection error.'')"
    by (simp add: sample_world_def)
  show ?thesis
    using c r llm_failure_fails_run [OF c r] by simp
qed

text \<open>
  C7. With \<open>IMAGE_API_URL\<close> unset (or empty), \<open>_maybe_generate_image\<close> returns \<open>None\<close>
  with no error and no outbound call, for every prompt. In the pipeline, a run that
  requests an image and whose paragraph passes the enforcer then succeeds with the image
  prompt set and the image URL \<open>None\<close>, again with no POST.
\<close>

theorem no_image_backend:
  "\<not> truthy (getenv w (py ''IMAGE_API_URL'')) \<Longrightarrow>
     maybe_generate_image w prompt = ([], Inr PyNone) \<and>
     (call_flipflop_llm w (strip (rq_noun1 r)) (strip (rq_noun2 r)) = (ev, Inr q) \<and>
      enforce_length q (rq_enforce_length r) = Inr (p, t) \<and> rq_request_image r \<longrightarrow>
        flipflop w r =
          (ev, Inr \<lparr>rs_paragraph = p, rs_truncated = t,
                    rs_image_prompt = Some (maybe_build_image_prompt p (rq_image_style_tail r)),
                    rs_image_url = PyNone\<rparr>) \<and>
        filter is_post (fst (flipflop w r)) = [])"
proof (intro conjI impI)
  assume n: "\<not> truthy (getenv w (py ''IMAGE_API_URL''))"
  show "maybe_generate_image w prompt = ([], Inr PyNone)"
    using n by (rule maybe_generate_image_unconfigured)
  assume a: "call_flipflop_llm w (strip (rq_noun1 r)) (strip (rq_noun2 r)) = (ev, Inr q) \<and>
      enforce_length q (rq_enforce_length r) = Inr (p, t) \<and> rq_request_image r"
  then show f: "flipflop w r =
          (ev, Inr \<lparr>rs_paragraph = p, rs_truncated = t,
                    rs_image_prompt = Some (maybe_build_image_prompt p (rq_image_style_tail r)),
                    rs_image_url = PyNone\<rparr>)"
    by (simp add: flipflop_def maybe_generate_image_unconfigured [OF n])
  have "filter is_post ev = []"
    using a call_flipflop_llm_no_post [of w "strip (rq_noun1 r)" "strip (rq_noun2 r)"] by simp
  with f show "filter is_post (fst (flipflop w r)) = []" by simp
qed

theorem no_image_backend_witness:
  "\<not> truthy (getenv (sample_world key_only (Completion [Some (letters 480)]) (PostRaises []))
               (py ''IMAGE_API_URL'')) \<and>
   maybe_generate_image (sample_world key_only (Completion [Some (letters 480)]) (PostRaises []))
     (py ''a teapot'') = ([], Inr PyNone) \<and>
   call_flipflop_llm (sample_world key_only (Completion [Some (letters 480)]) (PostRaises []))
     (strip (rq_noun1 (sample_request True True (Some (py ''oil painting'')))))
     (strip (rq_noun2 (sample_request True True (Some (py ''oil painting''))))) =
     ([sample_chat_call], Inr (letters 480)) \<and>
   enforce_length (letters 480)
     (rq_enforce_length (sample_request True True (Some (py ''oil painting'')))) =
     Inr (letters 480, False) \<and>
   rq_request_image (sample_request True True (Some (py ''oil painting''))) \<and>
   flipflop (sample_world key_only (Completion [Some (letters 480)]) (PostRaises []))
     (sample_request True True (Some (py ''oil painting''))) =
     ([sample_chat_call],
      Inr \<lparr>rs_paragraph = letters 480, rs_truncated = False,
           rs_image_prompt = Some (letters 480 @ py '' oil painting''),
           rs_image_url = PyNone\<rparr>)"
proof -
  let ?w = "sample_world key_only (Completion [Some (letters 480)]) (PostRaises [])"
  let ?r = "sample_request True True (Some (py ''oil painting''))"
  have n: "\<not> truthy (getenv ?w (py ''IMAGE_API_URL''))"
    by (simp add: getenv_sample env_key_only) (simp add: py_def)
  have c: "call_flipflop_llm ?w (strip (rq_noun1 ?r)) (strip (rq_noun2 ?r)) =
     ([sample_chat_call], Inr (letters 480))"
    by (simp add: sample_request_def strip_teapot strip_cactus call_key_only strip_letters
          letters_nonempty)
  have e: "enforce_length (letters 480) (rq_enforce_length ?r) = Inr (letters 480, False)"
    by (simp add: sample_request_def enforce_length_def length_letters)
  have i: "rq_request_image ?r"
    by (simp add: sample_request_def)
  have t: "maybe_build_image_prompt (letters 480) (rq_image_style_tail ?r) =
             letters 480 @ py '' oil painting''"
    by (simp add: sample_request_def maybe_build_image_prompt_def)
       (simp add: strip_def py_def isspace_def)
  show ?thesis
    using n c e i t
      no_image_backend [OF n, of "py ''a teapot''" ?r "[sample_chat_call]" "letters 480"
        "letters 480" False]
    by simp
qed

text \<open>
  C9. On every successful run the image prompt is present exactly when the request asked
  for an image, and the image URL is present only if the image prompt is.
\<close>

theorem result_invariant:
  "flipflop w r = (ev, Inr res) \<Longrightarrow>
     ((rs_image_prompt res \<noteq> None) = rq_request_image r) \<and>
     (rs_image_url res \<noteq> PyNone \<longrightarrow> rs_image_prompt res \<noteq> None)"
  by (auto simp: flipflop_def Let_def split: prod.splits sum.splits if_splits)

theorem result_invariant_witness:
  "flipflop
     (sample_world key_and_image (Completion [Some (letters 480)])
        (ok_response (PyDict [(py ''url'', PyStr (py ''http://x/y.png''))])))
     (sample_request True True (Some (py ''oil painting''))) =
     ([sample_chat_call, HttpxPost (py ''http://img/api'') (letters 480 @ py '' oil painting'') 60],
      Inr \<lparr>rs_paragraph = letters 480, rs_truncated = False,
           rs_image_prompt = Some (letters 480 @ py '' oil painting''),
           rs_image_url = PyStr (py ''http://x/y.png'')\<rparr>) \<and>
   rq_request_image (sample_request True True (Some (py ''oil painting''))) \<and>
   PyStr (py ''http://x/y.png'') \<noteq> PyNone \<and>
   Some (letters 480 @ py '' oil painting'') \<noteq> None"
proof -
  let ?w = "sample_world key_and_image (Completion [Some (letters 480)])
        (ok_response (PyDict [(py ''url'', PyStr (py ''http://x/y.png''))]))"
  let ?r = "sample_request True True (Some (py ''oil painting''))"
  have c: "call_flipflop_llm ?w (strip (rq_noun1 ?r)) (strip (rq_noun2 ?r)) =
     ([sample_chat_call], Inr (letters 480))"
    by (simp add: sample_request_def strip_teapot strip_cactus call_key_and_image strip_letters
          letters_nonempty)
  have e: "enforce_length (letters 480) (rq_enforce_length ?r) = Inr (letters 480, False)"
    by (simp add: sample_request_def enforce_length_def length_letters)
  have t: "maybe_build_image_prompt (letters 480) (rq_image_style_tail ?r) =
             letters 480 @ py '' oil painting''"
    by (simp add: sample_request_def maybe_build_image_prompt_def)
       (simp add: strip_def py_def isspace_def)
  have u: "or_val (dict_get [(py ''url'', PyStr (py ''http://x/y.png''))] (py ''url''))
             (dict_get [(py ''url'', PyStr (py ''http://x/y.png''))] (py ''image_url'')) =
           PyStr (py ''http://x/y.png'')"
    by (simp add: or_val_def dict_get_def) (simp add: py_def)
  have f: "flipflop ?w ?r =
     ([sample_chat_call, HttpxPost (py ''http://img/api'') (letters 480 @ py '' oil painting'') 60],
      Inr \<lparr>rs_paragraph = letters 480, rs_truncated = False,
           rs_image_prompt = Some (letters 480 @ py '' oil painting''),
           rs_image_url = PyStr (py ''http://x/y.png'')\<rparr>)"
    using c e t u
    by (simp add: flipflop_def image_key_and_image) (simp add: sample_request_def Let_def)
  show ?thesis
    using f result_invariant [OF f] by simp
qed

section \<open>Further properties\<close>

text \<open>
  X1. With enforcement off, the enforcer returns every paragraph unchanged and not
  flagged as truncated.
\<close>

theorem enforce_length_off: "enforce_length p False = Inr (p, False)"
  by (simp add: enforce_length_def)

text \<open>
  X2. The prompt builder returns the paragraph alone for an absent or an empty tail, and
  the paragraph, a space and the trimmed tail for every non-empty tail.
\<close>

theorem image_prompt_tail:
  "maybe_build_image_prompt p None = p \<and>
   maybe_build_image_prompt p (Some []) = p \<and>
   (t \<noteq> [] \<longrightarrow> maybe_build_image_prompt p (Some t) = p @ [32] @ strip t)"
  by (simp add: maybe_build_image_prompt_def)

theorem image_prompt_tail_witness:
  "py ''watercolor style'' \<noteq> [] \<and>
   maybe_build_image_prompt (py ''abc'') (Some (py ''watercolor style'')) =
     py ''abc watercolor style''"
proof -
  have n: "py ''watercolor style'' \<noteq> []"
    by (simp add: py_def)
  have s: "strip (py ''watercolor style'') = py ''watercolor style''"
    by (simp add: strip_def py_def isspace_def)
  show ?thesis
    using n s image_prompt_tail [of "py ''abc''" "py ''watercolor style''"]
    by (simp add: py_def)
qed

text \<open>
  X3. With none of the three key names set, the route of \<open>main.py\<close> ends with the
  \<open>RuntimeError\<close> of \<open>_build_llm_client\<close> itself, not with an \<open>HTTPException\<close>, and makes no
  outbound call.
\<close>

theorem main_route_passes_runtime_error:
  "getenv w (py ''AZURE_OPENAI_API_KEY'') = None \<Longrightarrow>
   getenv w (py ''OPENAI_API_KEY'') = None \<Longrightarrow>
   getenv w (py ''OPENAI_APIKEY'') = None \<Longrightarrow>
     flipflop w r = ([], Inl (RuntimeError missing_key))"
  by (simp add: main_route_missing_key build_llm_client_no_key)

theorem main_route_passes_runtime_error_witness:
  "getenv (keyed_world []) (py ''AZURE_OPENAI_API_KEY'') = None \<and>
   getenv (keyed_world []) (py ''OPENAI_API_KEY'') = None \<and>
   getenv (keyed_world []) (py ''OPENAI_APIKEY'') = None \<and>
   flipflop (keyed_world []) (sample_request True True None) =
     ([], Inl (RuntimeError missing_key))"
proof -
  have e: "getenv (keyed_world []) k = None" for k
    by (simp add: getenv_keyed env_of_def)
  show ?thesis
    using e main_route_passes_runtime_error [OF e e e, of "sample_request True True None"]
    by simp
qed

text \<open>
  X4. A completion with no choices, and one whose first choice has no text left after
  trimming, make the adapter fail with an \<open>HTTPException\<close> of status 502 that says so.
\<close>

theorem empty_completion_rejected:
  assumes "fst (call_flipflop_llm w noun1 noun2) =
             [ChatCompletionsCreate client model messages temperature]"
    and "chat_completions_create w client model messages temperature = Completion choices"
  shows "(choices = [] \<longrightarrow>
            snd (call_flipflop_llm w noun1 noun2) =
              Inl (HTTPException 502 (py ''LLM returned no choices.''))) \<and>
         (\<forall>c rest. choices = c # rest \<and> strip (case c of None \<Rightarrow> [] | Some s \<Rightarrow> s) = [] \<longrightarrow>
            snd (call_flipflop_llm w noun1 noun2) =
              Inl (HTTPException 502 (py ''LLM returned empty content.'')))"
  using assms by (auto simp: call_flipflop_llm_def Let_def split: sum.splits)

theorem empty_completion_rejected_witness:
  "call_flipflop_llm (sample_world key_only (Completion []) (PostRaises []))
     (py ''teapot'') (py ''cactus'') =
     ([sample_chat_call], Inl (HTTPException 502 (py ''LLM returned no choices.''))) \<and>
   strip (py ''   '') = [] \<and>
   call_flipflop_llm (sample_world key_only (Completion [Some (py ''   '')]) (PostRaises []))
     (py ''teapot'') (py ''cactus'') =
     ([sample_chat_call], Inl (HTTPException 502 (py ''LLM returned empty content.'')))"
proof -
  have f: "fst (call_flipflop_llm (sample_world key_only llm (PostRaises []))
     (py ''teapot'') (py ''cactus'')) =
     [ChatCompletionsCreate sample_client (py ''gpt-4o-mini'') sample_messages 0]" for llm
    by (simp add: call_key_only sample_chat_call_def)
  have c: "chat_completions_create (sample_world key_only llm (PostRaises []))
     sample_client (py ''gpt-4o-mini'') sample_messages 0 = llm" for llm
    by (simp add: sample_world_def)
  have s: "strip (py ''   '') = []"
    by (simp add: strip_def py_def isspace_def)
  show ?thesis
    using s f [of "Completion []"] f [of "Completion [Some (py ''   '')]"]
      empty_completion_rejected [OF f c, of "[]"]
      empty_completion_rejected [OF f c, of "[Some (py ''   '')]"]
    by (simp add: prod_eq_iff sample_chat_call_def)
qed

text \<open>
  X5. A paragraph of 520 characters, enforcement on, no image requested: the run
  succeeds with the first 500 characters, flagged as truncated, and neither image prompt
  nor image URL.
\<close>

theorem scenario_truncated_no_image:
  "flipflop (sample_world key_and_image (Completion [Some (letters 520)]) (PostRaises []))
     (sample_request True False None) =
     ([sample_chat_call],
      Inr \<lparr>rs_paragraph = letters 500, rs_truncated = True,
           rs_image_prompt = None, rs_image_url = PyNone\<rparr>) \<and>
   length (letters 500) = 500"
  by (simp add: flipflop_def sample_request_def strip_teapot strip_cactus call_key_and_image
        strip_letters letters_nonempty enforce_length_def length_letters take_letters)

text \<open>
  X6. With an image backend configured, a POST that raises, a response whose status
  check raises and a body that fails to parse each make \<open>_maybe_generate_image\<close> fail
  with an \<open>HTTPException\<close> of status 502 carrying the cause, after the one POST.
\<close>

theorem image_backend_failure:
  assumes "getenv w (py ''IMAGE_API_URL'') = Some url" and "url \<noteq> []"
  shows "(httpx_post w url prompt 60 = PostRaises exc \<longrightarrow>
            maybe_generate_image w prompt =
              ([HttpxPost url prompt 60],
               Inl (HTTPException 502 (py ''Image backend error: '' @ exc)))) \<and>
         (\<forall>response. httpx_post w url prompt 60 = PostReturns response \<and>
            raise_for_status response = Some exc \<longrightarrow>
            maybe_generate_image w prompt =
              ([HttpxPost url prompt 60],
               Inl (HTTPException 502 (py ''Image backend error: '' @ exc)))) \<and>
         (\<forall>response. httpx_post w url prompt 60 = PostReturns response \<and>
            raise_for_status response = None \<and> json response = Inl exc \<longrightarrow>
            maybe_generate_image w prompt =
              ([HttpxPost url prompt 60],
               Inl (HTTPException 502 (py ''Image backend error: '' @ exc))))"
  using assms by (simp add: maybe_generate_image_def)

theorem image_backend_failure_witness:
  "getenv (sample_world key_and_image (Completion []) (PostRaises (py ''timed out'')))
     (py ''IMAGE_API_URL'') = Some (py ''http://img/api'') \<and>
   py ''http://img/api'' \<noteq> [] \<and>
   maybe_generate_image
     (sample_world key_and_image (Completion []) (PostRaises (py ''timed out'')))
     (py ''a teapot'') =
     ([HttpxPost (py ''http://img/api'') (py ''a teapot'') 60],
      Inl (HTTPException 502 (py ''Image backend error: '' @ py ''timed out''))) \<and>
   maybe_generate_image
     (sample_world key_and_image (Completion [])
        (PostReturns \<lparr>raise_for_status = Some (py ''Server error''), json = Inr PyNone\<rparr>))
     (py ''a teapot'') =
     ([HttpxPost (py ''http://img/api'') (py ''a teapot'') 60],
      Inl (HTTPException 502 (py ''Image backend error: '' @ py ''Server error''))) \<and>
   maybe_generate_image
     (sample_world key_and_image (Completion [])
        (PostReturns \<lparr>raise_for_status = None, json = Inl (py ''Expecting value'')\<rparr>))
     (py ''a teapot'') =
     ([HttpxPost (py ''http://img/api'') (py ''a teapot'') 60],
      Inl (HTTPException 502 (py ''Image backend error: '' @ py ''Expecting value'')))"
proof -
  have g: "getenv (sample_world key_and_image llm backend) (py ''IMAGE_API_URL'') =
             Some (py ''http://img/api'')" for llm backend
    by (simp add: getenv_sample env_key_and_image) (simp add: py_def)
  have n: "py ''http://img/api'' \<noteq> []"
    by (simp add: py_def)
  have p: "httpx_post (sample_world key_and_image llm backend) url prompt 60 = backend"
    for llm backend url prompt
    by (simp add: sample_world_def)
  show ?thesis
    using g n
      image_backend_failure [OF g n,
        of "Completion []" "PostRaises (py ''timed out'')" "py ''a teapot''" "py ''timed out''"]
      image_backend_failure [OF g n,
        of "Completion []"
          "PostReturns \<lparr>raise_for_status = Some (py ''Server error''), json = Inr PyNone\<rparr>"
          "py ''a teapot''" "py ''Server error''"]
      image_backend_failure [OF g n,
        of "Completion []"
          "PostReturns \<lparr>raise_for_status = None, json = Inl (py ''Expecting value'')\<rparr>"
          "py ''a teapot''" "py ''Expecting value''"]
    by (simp add: p)
qed

text \<open>
  X7. The route of \<open>fastapi_app/main.py\<close> answers a \<open>FlipFlopError\<close> of \<open>run_flipflop\<close> with
  an \<open>HTTPException\<close> of status 502 carrying its message, lets a \<open>RuntimeError\<close> pass
  unchanged, and on success returns the four values as the response.
\<close>

theorem fastapi_route_outcomes:
  "(run (rq_noun1 r) (rq_noun2 r) (rq_enforce_length r) (rq_request_image r)
        (rq_image_style_tail r) = (ev, Inl (FlipFlopError msg)) \<longrightarrow>
      fastapi_app_flipflop run r = (ev, Inl (HTTPException 502 msg))) \<and>
   (run (rq_noun1 r) (rq_noun2 r) (rq_enforce_length r) (rq_request_image r)
        (rq_image_style_tail r) = (ev, Inl (RuntimeError msg)) \<longrightarrow>
      fastapi_app_flipflop run r = (ev, Inl (RuntimeError msg))) \<and>
   (run (rq_noun1 r) (rq_noun2 r) (rq_enforce_length r) (rq_request_image r)
        (rq_image_style_tail r) = (ev, Inr (p, t, ip, iu)) \<longrightarrow>
      fastapi_app_flipflop run r =
        (ev, Inr \<lparr>rs_paragraph = p, rs_truncated = t, rs_image_prompt = ip,
                  rs_image_url = iu\<rparr>))"
  by (simp add: fastapi_app_flipflop_def)

theorem fastapi_route_outcomes_witness:
  "fastapi_app_flipflop (\<lambda>noun1 noun2 enforce request_image tail.
       ([], Inl (FlipFlopError missing_key))) (sample_request True False None) =
     ([], Inl (HTTPException 502 missing_key)) \<and>
   fastapi_app_flipflop (\<lambda>noun1 noun2 enforce request_image tail.
       ([], Inl (RuntimeError missing_key))) (sample_request True False None) =
     ([], Inl (RuntimeError missing_key)) \<and>
   fastapi_app_flipflop (\<lambda>noun1 noun2 enforce request_image tail.
       ([sample_chat_call], Inr (letters 480, False, None, PyNone)))
     (sample_request True False None) =
     ([sample_chat_call],
      Inr \<lparr>rs_paragraph = letters 480, rs_truncated = False, rs_image_prompt = None,
           rs_image_url = PyNone\<rparr>)"
  using
    fastapi_route_outcomes [of "\<lambda>noun1 noun2 enforce request_image tail.
       ([], Inl (FlipFlopError missing_key))" "sample_request True False None" "[]" missing_key]
    fastapi_route_outcomes [of "\<lambda>noun1 noun2 enforce request_image tail.
       ([], Inl (RuntimeError missing_key))" "sample_request True False None" "[]" missing_key]
    fastapi_route_outcomes [of "\<lambda>noun1 noun2 enforce request_image tail.
       ([sample_chat_call], Inr (letters 480, False, None, PyNone))"
       "sample_request True False None" "[sample_chat_call]" _ "letters 480" False None PyNone]
  by simp

end
